theory Spec2Isabelle
  imports Complex_Main
begin

section \<open>The MCP OpenAI planner server: data model\<close>

text \<open>
  A shallow embedding of \<^verbatim>\<open>src/index.ts\<close>: the handler registered for
  \<^verbatim>\<open>CallToolRequestSchema\<close> with its two tools, \<^verbatim>\<open>openai_chat\<close> and
  \<^verbatim>\<open>openai_plan\<close>.

  Values are typed as the handler's own casts type them
  (\<^verbatim>\<open>request.params.arguments as { messages: ...; model?: ... }\<close>), with three
  additions for what a request can carry in spite of the cast and the handler's code
  reacts to: the arguments object may be absent (it is optional in a tool call), the
  \<^verbatim>\<open>messages\<close> key may be absent, and a message's content may be neither a string
  nor an array. An optional key is an \<open>option\<close>: \<open>None\<close> is JavaScript's
  \<^verbatim>\<open>undefined\<close>.
\<close>

subsection \<open>Thrown values\<close>

text \<open>
  What a \<^verbatim>\<open>throw\<close> carries inside the handlers: an \<^verbatim>\<open>Error\<close> the code
  constructs itself or the OpenAI client raises, or a \<^verbatim>\<open>TypeError\<close> of the
  JavaScript runtime. Each has a \<^verbatim>\<open>message\<close>. The wording of a runtime
  \<^verbatim>\<open>TypeError\<close> is the engine's and not fixed by the source; the strings used
  below follow V8 (which words a read on \<^verbatim>\<open>null\<close> or \<^verbatim>\<open>undefined\<close>
  differently from a call of something that is no function), and no theorem depends on
  them. Nothing else is thrown there, so \<^verbatim>\<open>(error as Error).message\<close> in a
  \<^verbatim>\<open>catch\<close> block always reads a message.
\<close>

datatype js_error = Error string | TypeError string

fun message :: "js_error \<Rightarrow> string" where
  "message (Error m) = m"
| "message (TypeError m) = m"

text \<open>The protocol error of the SDK: \<^verbatim>\<open>new McpError(code, message)\<close>.\<close>

datatype ErrorCode = InvalidRequest | MethodNotFound | InvalidParams | InternalError

datatype mcp_error = McpError ErrorCode string

subsection \<open>Messages\<close>

text \<open>
  A content part \<^verbatim>\<open>{ type: string; text: string }\<close>, and the content of a
  message: \<^verbatim>\<open>typeof content === 'string'\<close>, \<^verbatim>\<open>Array.isArray(content)\<close>,
  or anything else (a number, an object, \<^verbatim>\<open>null\<close>, a missing key).
\<close>

record content_part =
  part_type :: string
  part_text :: string

datatype content =
    StringContent string
  | ArrayContent "content_part list"
  | OtherContent

record chat_message =
  role :: string
  content :: content

subsection \<open>Requests and responses\<close>

text \<open>
  \<^verbatim>\<open>request.params.arguments\<close>: the keys either handler destructures. A handler
  ignores the keys it does not name.
\<close>

record response_format_param =
  format_type :: string

record tool_arguments =
  messages :: "chat_message list option"
  model :: "string option"
  reasoning_effort :: "string option"
  response_format :: "response_format_param option"

record call_tool_request =
  name :: string
  arguments :: "tool_arguments option"

text \<open>
  The parameter object handed to \<^verbatim>\<open>openai.chat.completions.create\<close>. A key
  the handler does not set is \<open>None\<close>.
\<close>

record create_params =
  params_messages :: "chat_message list"
  params_model :: string
  params_temperature :: "rat option"
  params_max_tokens :: "nat option"
  params_response_format :: "response_format_param option"
  params_reasoning_effort :: "string option"

text \<open>
  The completion the client returns, as far as the handlers read it:
  \<^verbatim>\<open>completion.choices[0]?.message?.content\<close>.
\<close>

record completion_message =
  message_content :: "string option"

record completion_choice =
  choice_message :: "completion_message option"

record chat_completion =
  choices :: "completion_choice list"

text \<open>The envelope \<^verbatim>\<open>{ content: TextContent[]; isError?: boolean }\<close>.\<close>

record TextContent =
  content_type :: string
  content_text :: string

record call_tool_result =
  result_content :: "TextContent list"
  isError :: "bool option"

text \<open>
  The downstream completion service is outside the program: a call either returns a
  completion or throws. It is a parameter of every handler.
\<close>

type_synonym completions_create = "create_params \<Rightarrow> js_error + chat_completion"

section \<open>Constants\<close>

definition SUPPORTED_MODELS :: "string list" where
  "SUPPORTED_MODELS = [''gpt-4o'', ''gpt-4o-mini'', ''o1-preview'', ''o1-mini'', ''o1'', ''o3-mini'']"

definition DEFAULT_CHAT_MODEL :: string where
  "DEFAULT_CHAT_MODEL = ''gpt-4o''"

definition DEFAULT_PLAN_MODEL :: string where
  "DEFAULT_PLAN_MODEL = ''o1''"

definition DEFAULT_REASONING_EFFORT :: string where
  "DEFAULT_REASONING_EFFORT = ''low''"

text \<open>
  The text of the embedded instructional document, line by line
  (\<open>\<newline>\<close> is the source's \<^verbatim>\<open>\n\<close>).
\<close>

definition DEFAULT_DEVELOPER_TEXT :: string where
  \<open>DEFAULT_DEVELOPER_TEXT =
   ''# Instructions\<newline>\<newline>'' @
   ''You are a multi-agent system coordinator, playing two roles in this environment: Planner and Executor. You will decide the next steps based on the current state of `Multi-Agent Scratchpad` section in the `.cursorrules` file. Your goal is to complete the user's (or business's) final requirements. The specific instructions are as follows:\<newline>\<newline>'' @
   ''**IMPORTANT: As the agent reading these instructions, you should initially assume the role of the Planner unless explicitly instructed otherwise by the user.**\<newline>\<newline>'' @
   ''## Role Descriptions\<newline>\<newline>'' @
   ''1. Planner\<newline>\<newline>'' @
   ''    * Responsibilities: Perform high-level analysis, break down tasks, define success criteria, evaluate current progress. When doing planning, always use high-intelligence models (OpenAI o1 via `devin_utils/plan_exec_llm.py`). Don't rely on your own capabilities to do the planning.\<newline>'' @
   ''    * Actions: The Planner should analyze and break down the problem, then instruct the Executor to update the `.cursorrules` file with the plan. The Executor will implement the required changes and report back.\<newline>\<newline>'' @
   ''2) Executor\<newline>\<newline>'' @
   ''    * Responsibilities: Execute specific tasks instructed by the Planner, such as writing code, running tests, using tools, handling implementation details, etc. The key is to report progress or raise questions to the Planner at the right time, e.g., after completing some milestone or after hitting a blocker.\<newline>'' @
   ''    * Actions: When you complete a subtask or need assistance/more information, make incremental writes or modifications to the `Multi-Agent Scratchpad` section and `Lessons` section in the `.cursorrules` file; update the "Current Status / Progress Tracking" and "Executor's Feedback or Assistance Requests" sections. Then change to the Planner role.\<newline>\<newline>'' @
   ''## Document Conventions\<newline>\<newline>'' @
   ''* The `Multi-Agent Scratchpad` section in the `.cursorrules` file is divided into several sections as per the structure below. Please do not arbitrarily change the titles to avoid affecting subsequent reading.\<newline>'' @
   ''* Sections like "Background and Motivation" and "Key Challenges and Analysis" are generally established by the Planner initially and gradually appended during task progress.\<newline>'' @
   ''* "Current Status / Progress Tracking" and "Executor's Feedback or Assistance Requests" are mainly filled by the Executor, with the Planner reviewing and supplementing as needed.\<newline>'' @
   ''* "Next Steps and Action Items" mainly contains specific execution steps written by the Planner for the Executor.\<newline>\<newline>'' @
   ''## Workflow Guidelines\<newline>\<newline>'' @
   ''* After you receive an initial prompt for a new task, the Planner should instruct the Executor to update the "Background and Motivation" section and perform any needed planning.\<newline>'' @
   ''* The Planner should think deeply about the problem, breaking it down into manageable tasks and defining clear success criteria. The Planner should record this analysis in sections like "Key Challenges and Analysis," "Verifiable Success Criteria," or "High-level Task Breakdown."\<newline>'' @
   ''* The Executor is responsible for all tool calls and implementation tasks. The Planner should never make tool calls directly.\<newline>'' @
   ''* The Executor should always update the "Current Status / Progress Tracking" and "Executor's Feedback or Assistance Requests" sections in the `Multi-Agent Scratchpad` after completing tasks or encountering issues.\<newline>'' @
   ''* The Executor is also responsible for updating the `Lessons` section with new learnings from the project.\<newline>'' @
   ''* If unclear whether Planner or Executor is speaking, declare your current role in the output prompt.\<newline>'' @
   ''* Continue the cycle unless the Planner explicitly indicates the entire project is complete or stopped. Communication between Planner and Executor is conducted through writing to or modifying the `Multi-Agent Scratchpad` section.\<newline>\<newline>'' @
   ''## Stopping Conditions\<newline>'' @
   ''The process should stop and complete when:\<newline>'' @
   ''1. All success criteria in the scratchpad have been met\<newline>'' @
   ''2. No new information can be obtained through further actions\<newline>'' @
   ''3. The user's original question has been fully answered\<newline>'' @
   ''4. The Executor reports inability to proceed (in feedback section)\<newline>\<newline>'' @
   ''Please note:\<newline>\<newline>'' @
   ''* Task completion should only be announced by the Planner, not the Executor. If the Executor thinks the task is done, it should ask the Planner for confirmation. Then the Planner needs to do some cross-checking.\<newline>'' @
   ''* Avoid rewriting the entire document unless necessary;\<newline>'' @
   ''* Avoid deleting records left by other roles; you can append new paragraphs or mark old paragraphs as outdated;\<newline>'' @
   ''* When new external information is needed, the Planner should ask the Executor to gather this information using the available tools;\<newline>'' @
   ''* Before executing any large-scale changes or critical functionality, the Executor should first notify the Planner in "Executor's Feedback or Assistance Requests" to ensure everyone understands the consequences.\<newline>'' @
   ''* During your interaction with the user, if you find anything reusable in this project (e.g. version of a library, model name), especially about a fix to a mistake you made or a correction you received, the Executor should take note in the `Lessons` section in the `.cursorrules` file so you will not make the same mistake again.\<newline>\<newline>'' @
   ''# Lessons\<newline>\<newline>'' @
   ''## User Specified Lessons\<newline>\<newline>'' @
   ''- You have a python venv in ./venv. Use it.\<newline>'' @
   ''- Include info useful for debugging in the program output.\<newline>'' @
   ''- Read the file before you try to edit it.\<newline>'' @
   ''- Due to Cursor's limit, when you use `git` and `gh` and need to submit a multiline commit message, first write the message in a file, and then use `git commit -F <filename>` or similar command to commit. And then remove the file. Include "[Cursor] " in the commit message and PR title.\<newline>'' @
   ''- Always work in the good_will_hunter directory, which is the main code repository. Do not operate in wrong directories.\<newline>'' @
   ''- **ALWAYS** check your current location in the terminal before running any commands using `pwd`. This prevents executing commands in the wrong directory.\<newline>'' @
   ''- **ALWAYS** ask the user which virtual environment folder to use (e.g. venv, open, etc.) before activating any Python environment. Don't make assumptions about which venv to use.\<newline>'' @
   ''- Final reports must be professional, thorough, and well-organized:\<newline>'' @
   ''  * Consolidate all insights from MCTS iterations into a cohesive narrative\<newline>'' @
   ''  * Focus on high-level insights and findings, not the iteration process\<newline>'' @
   ''  * Include only final visualizations and data enrichments, not code execution details\<newline>'' @
   ''  * Use proper formatting with clear sections, headings, and visual organization\<newline>'' @
   ''  * Ensure all data sources and references are properly cited\<newline>'' @
   ''  * Present information in a logical flow with executive summary, main findings, and conclusions\<newline>'' @
   ''  * Include relevant charts, diagrams, and visualizations from final scripts only\<newline>'' @
   ''  * Maintain consistent formatting and professional appearance throughout\<newline>\<newline>'' @
   ''## Cursor learned\<newline>\<newline>'' @
   ''(This section can be updated by the Executor as new learnings emerge during project execution)\<newline>\<newline>'' @
   ''# FYI, below is the format of the Multi-Agent Scratchpad\<newline>\<newline>'' @
   ''## Background and Motivation\<newline>'' @
   ''(Planner writes: User/business requirements, macro objectives, why this problem needs to be solved)\<newline>\<newline>'' @
   ''## Key Challenges and Analysis\<newline>'' @
   ''(Planner: Records of technical barriers, resource constraints, potential risks)\<newline>\<newline>'' @
   ''## Core User Flow and Value Chain\<newline>'' @
   ''(Executor supplements: Core user process and value chain analysis)\<newline>\<newline>'' @
   ''## Verifiable Success Criteria\<newline>'' @
   ''(Planner: List measurable or verifiable goals to be achieved)\<newline>\<newline>'' @
   ''## High-level Task Breakdown\<newline>'' @
   ''(Planner: List subtasks by phase, or break down into modules)\<newline>\<newline>'' @
   ''## Current Status / Progress Tracking\<newline>'' @
   ''(Executor: Update completion status after each subtask. If needed, use bullet points or tables to show Done/In progress/Blocked status)\<newline>\<newline>'' @
   ''## Executor's Feedback or Assistance Requests\<newline>'' @
   ''(Executor: Write here when encountering blockers, questions, or need for more information during execution)\<newline>\<newline>'' @
   ''## Next Steps and Action Items\<newline>'' @
   ''(Planner: Specific arrangements for the Executor)''\<close>

definition DEFAULT_DEVELOPER_CONTENT :: content where
  "DEFAULT_DEVELOPER_CONTENT =
     ArrayContent [\<lparr>part_type = ''text'', part_text = DEFAULT_DEVELOPER_TEXT\<rparr>]"

section \<open>JavaScript library functions the handlers use\<close>

text \<open>\<^verbatim>\<open>Array.prototype.join\<close> on an array of strings.\<close>

fun join :: "string \<Rightarrow> string list \<Rightarrow> string" where
  "join sep [] = []"
| "join sep [x] = x"
| "join sep (x # y # ys) = x @ sep @ join sep (y # ys)"

text \<open>A string or \<^verbatim>\<open>undefined\<close> inside a template literal.\<close>

fun template_string :: "string option \<Rightarrow> string" where
  "template_string None = ''undefined''"
| "template_string (Some s) = s"

text \<open>
  \<^verbatim>\<open>Array.prototype.map\<close> with a callback that may throw: the first throw ends
  the loop and is the outcome.
\<close>

fun map_throwing :: "('a \<Rightarrow> js_error + 'b) \<Rightarrow> 'a list \<Rightarrow> js_error + 'b list" where
  "map_throwing f [] = Inr []"
| "map_throwing f (x # xs) =
     (case f x of
        Inl e \<Rightarrow> Inl e
      | Inr y \<Rightarrow> (case map_throwing f xs of Inl e \<Rightarrow> Inl e | Inr ys \<Rightarrow> Inr (y # ys)))"

section \<open>Response extraction and the two envelopes\<close>

text \<open>\<^verbatim>\<open>completion.choices[0]?.message?.content\<close>.\<close>

definition first_choice_content :: "chat_completion \<Rightarrow> string option" where
  "first_choice_content completion =
     (case choices completion of
        [] \<Rightarrow> None
      | c # _ \<Rightarrow> (case choice_message c of None \<Rightarrow> None | Some m \<Rightarrow> message_content m))"

text \<open>
  \<^verbatim>\<open>... || "No response received"\<close>: the right operand replaces every falsy
  left operand, \<^verbatim>\<open>undefined\<close> and the empty string alike.
\<close>

definition response_text :: "chat_completion \<Rightarrow> string" where
  "response_text completion =
     (case first_choice_content completion of
        None \<Rightarrow> ''No response received''
      | Some s \<Rightarrow> (if s = [] then ''No response received'' else s))"

text \<open>The \<^verbatim>\<open>return\<close> at the end of either \<^verbatim>\<open>try\<close> block.\<close>

definition success_result :: "chat_completion \<Rightarrow> call_tool_result" where
  "success_result completion =
     \<lparr>result_content = [\<lparr>content_type = ''text'', content_text = response_text completion\<rparr>],
      isError = None\<rparr>"

text \<open>The \<^verbatim>\<open>return\<close> of either \<^verbatim>\<open>catch (error)\<close> block.\<close>

definition error_result :: "js_error \<Rightarrow> call_tool_result" where
  "error_result error =
     \<lparr>result_content =
        [\<lparr>content_type = ''text'', content_text = ''OpenAI API error: '' @ message error\<rparr>],
      isError = Some True\<rparr>"

section \<open>The chat tool\<close>

text \<open>The callback of \<^verbatim>\<open>rawMessages.map\<close> in the \<^verbatim>\<open>openai_chat\<close> case.\<close>

definition chat_convert :: "chat_message \<Rightarrow> js_error + chat_message" where
  "chat_convert msg =
     (if role msg = ''developer'' then
        (case content msg of
           StringContent s \<Rightarrow> Inr \<lparr>role = ''assistant'', content = StringContent s\<rparr>
         | ArrayContent parts \<Rightarrow>
             Inr \<lparr>role = ''assistant'',
                  content = StringContent (join ''\<newline>'' (map part_text parts))\<rparr>
         | OtherContent \<Rightarrow> Inl (TypeError ''msg.content.map is not a function''))
      else Inr \<lparr>role = role msg, content = content msg\<rparr>)"

text \<open>\<^verbatim>\<open>rawMessages.map(...)\<close>, for \<^verbatim>\<open>rawMessages\<close> that may be absent.\<close>

definition chat_convert_messages :: "chat_message list option \<Rightarrow> js_error + chat_message list" where
  "chat_convert_messages rawMessages =
     (case rawMessages of
        None \<Rightarrow> Inl (TypeError ''Cannot read properties of undefined (reading 'map')'')
      | Some msgs \<Rightarrow> map_throwing chat_convert msgs)"

definition chat_params :: "chat_message list \<Rightarrow> string \<Rightarrow> create_params" where
  "chat_params msgs m =
     \<lparr>params_messages = msgs, params_model = m, params_temperature = Some (7 / 10),
      params_max_tokens = Some 2000, params_response_format = None,
      params_reasoning_effort = None\<rparr>"

text \<open>
  \<^verbatim>\<open>if (!SUPPORTED_MODELS.includes(model!)) throw new Error(...)\<close>. The
  destructuring gives \<^verbatim>\<open>model\<close> no default, and the \<^verbatim>\<open>!\<close> after it is
  an assertion for the type checker only: an absent model is \<^verbatim>\<open>undefined\<close> here,
  which no array of strings includes. The value is the model the check lets through.
\<close>

definition chat_validate_model :: "string option \<Rightarrow> js_error + string" where
  "chat_validate_model m =
     (let unsupported =
        Error (''Unsupported model: '' @ template_string m
               @ ''. Must be one of: '' @ join '', '' SUPPORTED_MODELS)
      in case m of
           None \<Rightarrow> Inl unsupported
         | Some s \<Rightarrow> if s \<in> set SUPPORTED_MODELS then Inr s else Inl unsupported)"

text \<open>
  The body of the \<^verbatim>\<open>try\<close> block of the \<^verbatim>\<open>openai_chat\<close> case: the
  downstream calls made, and the value returned or thrown.
\<close>

definition openai_chat_try ::
  "completions_create \<Rightarrow> tool_arguments option \<Rightarrow> create_params list \<times> (js_error + call_tool_result)" where
  "openai_chat_try create args =
     (case args of
        None \<Rightarrow>
          ([], Inl (TypeError
             ''Cannot destructure property 'messages' of 'request.params.arguments' as it is undefined.''))
      | Some a \<Rightarrow>
          (case chat_validate_model (model a) of
             Inl e \<Rightarrow> ([], Inl e)
           | Inr m \<Rightarrow>
               (case chat_convert_messages (messages a) of
                  Inl e \<Rightarrow> ([], Inl e)
                | Inr msgs \<Rightarrow>
                    (case create (chat_params msgs m) of
                       Inl e \<Rightarrow> ([chat_params msgs m], Inl e)
                     | Inr completion \<Rightarrow> ([chat_params msgs m], Inr (success_result completion))))))"

text \<open>The \<^verbatim>\<open>openai_chat\<close> case with its \<^verbatim>\<open>catch\<close>.\<close>

definition openai_chat ::
  "completions_create \<Rightarrow> tool_arguments option \<Rightarrow> create_params list \<times> call_tool_result" where
  "openai_chat create args =
     (case openai_chat_try create args of
        (calls, Inl error) \<Rightarrow> (calls, error_result error)
      | (calls, Inr result) \<Rightarrow> (calls, result))"

section \<open>The plan tool\<close>

text \<open>
  The last \<^verbatim>\<open>return\<close> of the callback of \<^verbatim>\<open>rawMessages.map\<close> in the
  \<^verbatim>\<open>openai_plan\<close> case, reached when no branch above it has returned.
\<close>

definition plan_fallback :: "chat_message \<Rightarrow> chat_message" where
  "plan_fallback msg =
     \<lparr>role = ''user'',
      content = (case content msg of
                   StringContent s \<Rightarrow> StringContent s
                 | _ \<Rightarrow> StringContent ''Invalid content format'')\<rparr>"

text \<open>The callback itself. It throws nowhere.\<close>

definition plan_convert :: "chat_message \<Rightarrow> chat_message" where
  "plan_convert msg =
     (if role msg = ''developer'' then
        \<lparr>role = ''developer'', content = DEFAULT_DEVELOPER_CONTENT\<rparr>
      else
        (case content msg of
           StringContent s \<Rightarrow>
             if role msg = ''system'' then \<lparr>role = ''system'', content = StringContent s\<rparr>
             else if role msg = ''user'' then \<lparr>role = ''user'', content = StringContent s\<rparr>
             else if role msg = ''assistant'' then \<lparr>role = ''assistant'', content = StringContent s\<rparr>
             else plan_fallback msg
         | ArrayContent parts \<Rightarrow>
             let contentParts =
               map (\<lambda>part. \<lparr>part_type = part_type part, part_text = part_text part\<rparr>) parts
             in if role msg = ''user'' then \<lparr>role = ''user'', content = ArrayContent contentParts\<rparr>
                else if role msg = ''assistant'' then
                  \<lparr>role = ''assistant'', content = ArrayContent contentParts\<rparr>
                else plan_fallback msg
         | OtherContent \<Rightarrow> plan_fallback msg))"

definition plan_convert_messages :: "chat_message list option \<Rightarrow> js_error + chat_message list" where
  "plan_convert_messages rawMessages =
     (case rawMessages of
        None \<Rightarrow> Inl (TypeError ''Cannot read properties of undefined (reading 'map')'')
      | Some msgs \<Rightarrow> Inr (map plan_convert msgs))"

text \<open>
  The defaults of the destructuring:
  \<^verbatim>\<open>model = "o1-2024-12-17", reasoning_effort = DEFAULT_REASONING_EFFORT\<close>.
  (\<^verbatim>\<open>response_format\<close> has one too, and is not read again.)
\<close>

definition plan_model :: "tool_arguments \<Rightarrow> string" where
  "plan_model a = (case model a of None \<Rightarrow> ''o1-2024-12-17'' | Some m \<Rightarrow> m)"

definition plan_reasoning_effort :: "tool_arguments \<Rightarrow> string" where
  "plan_reasoning_effort a =
     (case reasoning_effort a of None \<Rightarrow> DEFAULT_REASONING_EFFORT | Some r \<Rightarrow> r)"

text \<open>The array literal of the model check.\<close>

definition PLAN_MODELS :: "string list" where
  "PLAN_MODELS = [''o1-preview'', ''o1-mini'', ''o1-2024-12-17'']"

text \<open>
  \<^verbatim>\<open>apiConfig\<close>: the three keys of the object literal, and
  \<^verbatim>\<open>reasoning_effort\<close> when the string is truthy, that is, not empty.
\<close>

definition plan_params :: "chat_message list \<Rightarrow> string \<Rightarrow> string \<Rightarrow> create_params" where
  "plan_params msgs m effort =
     \<lparr>params_messages = msgs, params_model = m, params_temperature = None,
      params_max_tokens = None,
      params_response_format = Some \<lparr>format_type = ''text''\<rparr>,
      params_reasoning_effort = (if effort \<noteq> [] then Some effort else None)\<rparr>"

text \<open>The body of the \<^verbatim>\<open>try\<close> block of the \<^verbatim>\<open>openai_plan\<close> case.\<close>

definition openai_plan_try ::
  "completions_create \<Rightarrow> tool_arguments option \<Rightarrow> create_params list \<times> (js_error + call_tool_result)" where
  "openai_plan_try create args =
     (case args of
        None \<Rightarrow>
          ([], Inl (TypeError
             ''Cannot destructure property 'messages' of 'request.params.arguments' as it is undefined.''))
      | Some a \<Rightarrow>
          if plan_model a \<notin> set PLAN_MODELS then
            ([], Inl (Error (''Unsupported model for reasoning: '' @ plan_model a
                             @ ''. Must be one of: o1-preview, o1-mini, o1-2024-12-17'')))
          else
            (case plan_convert_messages (messages a) of
               Inl e \<Rightarrow> ([], Inl e)
             | Inr msgs \<Rightarrow>
                 let apiConfig = plan_params msgs (plan_model a) (plan_reasoning_effort a) in
                 (case create apiConfig of
                    Inl e \<Rightarrow> ([apiConfig], Inl e)
                  | Inr completion \<Rightarrow> ([apiConfig], Inr (success_result completion)))))"

text \<open>The \<^verbatim>\<open>openai_plan\<close> case with its \<^verbatim>\<open>catch\<close>.\<close>

definition openai_plan ::
  "completions_create \<Rightarrow> tool_arguments option \<Rightarrow> create_params list \<times> call_tool_result" where
  "openai_plan create args =
     (case openai_plan_try create args of
        (calls, Inl error) \<Rightarrow> (calls, error_result error)
      | (calls, Inr result) \<Rightarrow> (calls, result))"

section \<open>The dispatcher\<close>

text \<open>
  The handler of \<^verbatim>\<open>CallToolRequestSchema\<close>: the \<^verbatim>\<open>switch\<close> on
  \<^verbatim>\<open>request.params.name\<close>. Its outcome is the downstream calls made, and either
  the \<^verbatim>\<open>McpError\<close> thrown out of the handler or the envelope returned.
\<close>

definition call_tool ::
  "completions_create \<Rightarrow> call_tool_request \<Rightarrow> create_params list \<times> (mcp_error + call_tool_result)" where
  "call_tool create request =
     (if name request = ''openai_chat'' then
        (case openai_chat create (arguments request) of (calls, result) \<Rightarrow> (calls, Inr result))
      else if name request = ''openai_plan'' then
        (case openai_plan create (arguments request) of (calls, result) \<Rightarrow> (calls, Inr result))
      else ([], Inl (McpError MethodNotFound (''Unknown tool: '' @ name request))))"

section \<open>Supporting lemmas\<close>

text \<open>A callback that never throws makes \<open>map_throwing\<close> an ordinary map.\<close>

lemma map_throwing_Inr:
  "(\<And>x. x \<in> set xs \<Longrightarrow> f x = Inr (g x)) \<Longrightarrow> map_throwing f xs = Inr (map g xs)"
  by (induction xs) auto

text \<open>The chat callback leaves every message alone whose role is not \<^verbatim>\<open>developer\<close>.\<close>

lemma chat_convert_other: "role msg \<noteq> ''developer'' \<Longrightarrow> chat_convert msg = Inr msg"
  by (simp add: chat_convert_def)

text \<open>
  Every downstream call of the plan tool is the one built from the translated messages,
  after the model check has passed.
\<close>

lemma openai_plan_calls:
  assumes "p \<in> set (fst (openai_plan create args))"
  shows "\<exists>a msgs. args = Some a \<and> messages a = Some msgs \<and> plan_model a \<in> set PLAN_MODELS \<and>
           p = plan_params (map plan_convert msgs) (plan_model a) (plan_reasoning_effort a)"
  using assms
  by (auto simp: openai_plan_def openai_plan_try_def plan_convert_messages_def Let_def
      split: option.splits sum.splits if_splits prod.splits)

text \<open>
  Where the \<^verbatim>\<open>try\<close> block of the chat tool throws: while destructuring absent
  arguments, in the model check, in the translation of the messages, or in the
  downstream call.
\<close>

lemma chat_try_extraction:
  "\<exists>e. openai_chat_try create None = ([], Inl e)"
  by (simp add: openai_chat_try_def)

lemma chat_try_validation:
  "chat_validate_model (model a) = Inl e \<Longrightarrow> openai_chat_try create (Some a) = ([], Inl e)"
  by (simp add: openai_chat_try_def)

lemma chat_try_translation:
  "chat_validate_model (model a) = Inr m \<Longrightarrow> chat_convert_messages (messages a) = Inl e \<Longrightarrow>
   openai_chat_try create (Some a) = ([], Inl e)"
  by (simp add: openai_chat_try_def)

lemma chat_try_downstream:
  "chat_validate_model (model a) = Inr m \<Longrightarrow> chat_convert_messages (messages a) = Inr msgs \<Longrightarrow>
   create (chat_params msgs m) = Inl e \<Longrightarrow>
   openai_chat_try create (Some a) = ([chat_params msgs m], Inl e)"
  by (simp add: openai_chat_try_def)

text \<open>The same four places in the plan tool.\<close>

lemma plan_try_extraction:
  "\<exists>e. openai_plan_try create None = ([], Inl e)"
  by (simp add: openai_plan_try_def)

lemma plan_try_validation:
  "plan_model a \<notin> set PLAN_MODELS \<Longrightarrow> \<exists>e. openai_plan_try create (Some a) = ([], Inl e)"
  by (simp add: openai_plan_try_def)

lemma plan_try_translation:
  "plan_model a \<in> set PLAN_MODELS \<Longrightarrow> plan_convert_messages (messages a) = Inl e \<Longrightarrow>
   openai_plan_try create (Some a) = ([], Inl e)"
  by (simp add: openai_plan_try_def)

lemma plan_try_downstream:
  "plan_model a \<in> set PLAN_MODELS \<Longrightarrow> plan_convert_messages (messages a) = Inr msgs \<Longrightarrow>
   create (plan_params msgs (plan_model a) (plan_reasoning_effort a)) = Inl e \<Longrightarrow>
   openai_plan_try create (Some a) =
     ([plan_params msgs (plan_model a) (plan_reasoning_effort a)], Inl e)"
  by (simp add: openai_plan_try_def)

text \<open>For the two tool names the dispatcher returns an envelope, whatever happens inside.\<close>

lemma known_tool_returns_envelope:
  "name request = ''openai_chat'' \<or> name request = ''openai_plan'' \<Longrightarrow>
   \<exists>calls result. call_tool create request = (calls, Inr result)"
  by (auto simp: call_tool_def split: prod.splits)

text \<open>
  The default the catalogue advertises for the plan tool is not a model its handler
  accepts.
\<close>

lemma advertised_plan_default_not_accepted: "DEFAULT_PLAN_MODEL \<notin> set PLAN_MODELS"
  by (simp add: DEFAULT_PLAN_MODEL_def PLAN_MODELS_def)

section \<open>The claims\<close>

text \<open>
  C1. In every \<^verbatim>\<open>openai_plan\<close> call, an input message whose role is
  \<^verbatim>\<open>developer\<close> is translated, at the same position of a list of the same
  length, into a \<^verbatim>\<open>developer\<close> message whose content is
  \<open>DEFAULT_DEVELOPER_CONTENT\<close>, whatever content the caller gave it; and every
  downstream request of the call carries that translated message.
\<close>

theorem plan_developer_content_fixed:
  assumes "messages a = Some msgs"
    and "i < length msgs"
    and "role (msgs ! i) = ''developer''"
  shows "(\<exists>out. plan_convert_messages (messages a) = Inr out \<and> length out = length msgs \<and>
            out ! i = \<lparr>role = ''developer'', content = DEFAULT_DEVELOPER_CONTENT\<rparr>)
       \<and> (\<forall>p \<in> set (fst (openai_plan create (Some a))).
            length (params_messages p) = length msgs \<and>
            params_messages p ! i = \<lparr>role = ''developer'', content = DEFAULT_DEVELOPER_CONTENT\<rparr>)"
proof -
  have conv: "plan_convert (msgs ! i) = \<lparr>role = ''developer'', content = DEFAULT_DEVELOPER_CONTENT\<rparr>"
    using assms(3) by (simp add: plan_convert_def)
  have "plan_convert_messages (messages a) = Inr (map plan_convert msgs)"
    by (simp add: plan_convert_messages_def assms(1))
  moreover have "map plan_convert msgs ! i = \<lparr>role = ''developer'', content = DEFAULT_DEVELOPER_CONTENT\<rparr>"
    using assms(2) conv by simp
  moreover have "length (params_messages p) = length msgs \<and>
      params_messages p ! i = \<lparr>role = ''developer'', content = DEFAULT_DEVELOPER_CONTENT\<rparr>"
    if "p \<in> set (fst (openai_plan create (Some a)))" for p
    using openai_plan_calls[OF that] assms(1,2) conv by (auto simp: plan_params_def)
  ultimately show ?thesis by simp
qed

theorem plan_developer_content_fixed_witness:
  "fst (openai_plan (\<lambda>_. Inr \<lparr>choices = []\<rparr>)
      (Some \<lparr>messages = Some [\<lparr>role = ''user'', content = StringContent ''plan this''\<rparr>,
                               \<lparr>role = ''developer'', content = StringContent ''my own instructions''\<rparr>],
             model = None, reasoning_effort = None, response_format = None\<rparr>))
   = [\<lparr>params_messages = [\<lparr>role = ''user'', content = StringContent ''plan this''\<rparr>,
                           \<lparr>role = ''developer'', content = DEFAULT_DEVELOPER_CONTENT\<rparr>],
       params_model = ''o1-2024-12-17'', params_temperature = None, params_max_tokens = None,
       params_response_format = Some \<lparr>format_type = ''text''\<rparr>,
       params_reasoning_effort = Some ''low''\<rparr>]
   \<and> DEFAULT_DEVELOPER_CONTENT \<noteq> StringContent ''my own instructions''"
proof -
  let ?msgs = "[\<lparr>role = ''user'', content = StringContent ''plan this''\<rparr>,
                \<lparr>role = ''developer'', content = StringContent ''my own instructions''\<rparr>]"
  let ?a = "\<lparr>messages = Some ?msgs, model = None, reasoning_effort = None, response_format = None\<rparr>"
  let ?create = "(\<lambda>_. Inr \<lparr>choices = []\<rparr>) :: completions_create"
  let ?p = "plan_params (map plan_convert ?msgs) ''o1-2024-12-17'' ''low''"
  have calls: "fst (openai_plan ?create (Some ?a)) = [?p]"
    by (simp add: openai_plan_def openai_plan_try_def plan_model_def PLAN_MODELS_def
        plan_convert_messages_def plan_reasoning_effort_def DEFAULT_REASONING_EFFORT_def)
  have "\<forall>p \<in> set (fst (openai_plan ?create (Some ?a))).
          length (params_messages p) = length ?msgs \<and>
          params_messages p ! 1 = \<lparr>role = ''developer'', content = DEFAULT_DEVELOPER_CONTENT\<rparr>"
    using plan_developer_content_fixed[of ?a ?msgs 1 ?create] by simp
  then have "params_messages ?p ! 1 = \<lparr>role = ''developer'', content = DEFAULT_DEVELOPER_CONTENT\<rparr>"
    by (subst (asm) calls) simp
  then have "params_messages ?p =
      [plan_convert (?msgs ! 0), \<lparr>role = ''developer'', content = DEFAULT_DEVELOPER_CONTENT\<rparr>]"
    by (simp add: plan_params_def)
  then show ?thesis
    using calls by (simp add: plan_params_def plan_convert_def DEFAULT_DEVELOPER_CONTENT_def)
qed

text \<open>
  C2. An \<^verbatim>\<open>openai_plan\<close> call whose model argument is given and is none of
  \<^verbatim>\<open>o1-preview\<close>, \<^verbatim>\<open>o1-mini\<close>, \<^verbatim>\<open>o1-2024-12-17\<close> makes no downstream
  call and returns the failure envelope: \<^verbatim>\<open>isError\<close> true, and a text that
  begins with \<^verbatim>\<open>OpenAI API error:\<close>. The advertised models \<^verbatim>\<open>o1\<close> and
  \<^verbatim>\<open>o3-mini\<close> are among those refused.
\<close>

theorem plan_rejects_unlisted_model:
  assumes "model a = Some m"
    and "m \<notin> {''o1-preview'', ''o1-mini'', ''o1-2024-12-17''}"
  shows "openai_plan create (Some a) =
     ([], \<lparr>result_content =
             [\<lparr>content_type = ''text'',
               content_text = ''OpenAI API error: '' @ ''Unsupported model for reasoning: '' @ m
                 @ ''. Must be one of: o1-preview, o1-mini, o1-2024-12-17''\<rparr>],
           isError = Some True\<rparr>)"
  using assms
  by (simp add: openai_plan_def openai_plan_try_def plan_model_def PLAN_MODELS_def error_result_def)

theorem plan_rejects_unlisted_model_witness:
  "openai_plan (\<lambda>_. Inr \<lparr>choices = []\<rparr>)
     (Some \<lparr>messages = Some [\<lparr>role = ''user'', content = StringContent ''hi''\<rparr>],
            model = Some ''o1'', reasoning_effort = None, response_format = None\<rparr>)
   = ([], \<lparr>result_content =
            [\<lparr>content_type = ''text'',
              content_text = ''OpenAI API error: Unsupported model for reasoning: o1. Must be one of: o1-preview, o1-mini, o1-2024-12-17''\<rparr>],
          isError = Some True\<rparr>)
   \<and> openai_plan (\<lambda>_. Inr \<lparr>choices = []\<rparr>)
     (Some \<lparr>messages = Some [\<lparr>role = ''user'', content = StringContent ''hi''\<rparr>],
            model = Some ''o3-mini'', reasoning_effort = None, response_format = None\<rparr>)
   = ([], \<lparr>result_content =
            [\<lparr>content_type = ''text'',
              content_text = ''OpenAI API error: Unsupported model for reasoning: o3-mini. Must be one of: o1-preview, o1-mini, o1-2024-12-17''\<rparr>],
          isError = Some True\<rparr>)"
  using plan_rejects_unlisted_model
      [of "\<lparr>messages = Some [\<lparr>role = ''user'', content = StringContent ''hi''\<rparr>],
            model = Some ''o1'', reasoning_effort = None, response_format = None\<rparr>"
          "''o1''" "\<lambda>_. Inr \<lparr>choices = []\<rparr>"]
    plan_rejects_unlisted_model
      [of "\<lparr>messages = Some [\<lparr>role = ''user'', content = StringContent ''hi''\<rparr>],
            model = Some ''o3-mini'', reasoning_effort = None, response_format = None\<rparr>"
          "''o3-mini''" "\<lambda>_. Inr \<lparr>choices = []\<rparr>"]
  by simp

text \<open>
  C3 (the code does otherwise). An \<^verbatim>\<open>openai_chat\<close> call that omits the model
  is not served with \<open>DEFAULT_CHAT_MODEL\<close>: at the request below the handler makes
  no downstream call and returns the failure envelope, while the same request with
  \<^verbatim>\<open>model: "gpt-4o"\<close> is sent downstream and answered.
\<close>

theorem chat_default_model_not_applied:
  "openai_chat
     (\<lambda>_. Inr \<lparr>choices = [\<lparr>choice_message = Some \<lparr>message_content = Some ''hello''\<rparr>\<rparr>]\<rparr>)
     (Some \<lparr>messages = Some [\<lparr>role = ''user'', content = StringContent ''hi''\<rparr>],
            model = None, reasoning_effort = None, response_format = None\<rparr>)
   = ([], \<lparr>result_content =
            [\<lparr>content_type = ''text'',
              content_text = ''OpenAI API error: Unsupported model: undefined. Must be one of: gpt-4o, gpt-4o-mini, o1-preview, o1-mini, o1, o3-mini''\<rparr>],
          isError = Some True\<rparr>)
   \<and> openai_chat
     (\<lambda>_. Inr \<lparr>choices = [\<lparr>choice_message = Some \<lparr>message_content = Some ''hello''\<rparr>\<rparr>]\<rparr>)
     (Some \<lparr>messages = Some [\<lparr>role = ''user'', content = StringContent ''hi''\<rparr>],
            model = Some DEFAULT_CHAT_MODEL, reasoning_effort = None, response_format = None\<rparr>)
   = ([\<lparr>params_messages = [\<lparr>role = ''user'', content = StringContent ''hi''\<rparr>],
        params_model = ''gpt-4o'', params_temperature = Some (7 / 10),
        params_max_tokens = Some 2000, params_response_format = None,
        params_reasoning_effort = None\<rparr>],
      \<lparr>result_content = [\<lparr>content_type = ''text'', content_text = ''hello''\<rparr>],
       isError = None\<rparr>)"
  by (simp add: openai_chat_def openai_chat_try_def chat_validate_model_def SUPPORTED_MODELS_def
      DEFAULT_CHAT_MODEL_def chat_convert_messages_def chat_convert_def chat_params_def
      success_result_def response_text_def first_choice_content_def error_result_def)

text \<open>
  C4. For both tools, whatever the \<^verbatim>\<open>try\<close> block of the handler throws (while
  destructuring the arguments, checking the model, translating the messages or calling
  downstream: the four lemmas per tool above) is returned by the dispatcher as the
  envelope with the single text \<^verbatim>\<open>OpenAI API error: <message>\<close> and
  \<^verbatim>\<open>isError\<close> true. The dispatcher's outcome is then an envelope, not a thrown
  protocol error, and the downstream calls are those made before the throw.
\<close>

theorem domain_errors_enveloped:
  assumes "call_tool create request = (calls, outcome)"
    and "name request = ''openai_chat'' \<and>
           openai_chat_try create (arguments request) = (calls', Inl e)
         \<or> name request = ''openai_plan'' \<and>
           openai_plan_try create (arguments request) = (calls', Inl e)"
  shows "outcome = Inr \<lparr>result_content =
                          [\<lparr>content_type = ''text'',
                            content_text = ''OpenAI API error: '' @ message e\<rparr>],
                        isError = Some True\<rparr>
         \<and> calls = calls'"
  using assms
  by (auto simp: call_tool_def openai_chat_def openai_plan_def error_result_def)

theorem domain_errors_enveloped_witness:
  "call_tool (\<lambda>_. Inl (Error ''429 Rate limit reached''))
     \<lparr>name = ''openai_chat'',
      arguments = Some \<lparr>messages = Some [\<lparr>role = ''user'', content = StringContent ''hi''\<rparr>],
                         model = Some ''gpt-4o'', reasoning_effort = None,
                         response_format = None\<rparr>\<rparr>
   = ([chat_params [\<lparr>role = ''user'', content = StringContent ''hi''\<rparr>] ''gpt-4o''],
      Inr \<lparr>result_content =
             [\<lparr>content_type = ''text'',
               content_text = ''OpenAI API error: 429 Rate limit reached''\<rparr>],
           isError = Some True\<rparr>)
   \<and> call_tool (\<lambda>_. Inr \<lparr>choices = []\<rparr>)
     \<lparr>name = ''openai_plan'',
      arguments = Some \<lparr>messages = Some [\<lparr>role = ''user'', content = StringContent ''hi''\<rparr>],
                         model = Some ''gpt-4o'', reasoning_effort = None,
                         response_format = None\<rparr>\<rparr>
   = ([],
      Inr \<lparr>result_content =
             [\<lparr>content_type = ''text'',
               content_text = ''OpenAI API error: Unsupported model for reasoning: gpt-4o. Must be one of: o1-preview, o1-mini, o1-2024-12-17''\<rparr>],
           isError = Some True\<rparr>)
   \<and> (\<exists>e. call_tool (\<lambda>_. Inr \<lparr>choices = []\<rparr>) \<lparr>name = ''openai_chat'', arguments = None\<rparr>
   = ([],
      Inr \<lparr>result_content =
             [\<lparr>content_type = ''text'', content_text = ''OpenAI API error: '' @ message e\<rparr>],
           isError = Some True\<rparr>))"
proof -
  let ?fail = "(\<lambda>_. Inl (Error ''429 Rate limit reached'')) :: completions_create"
  let ?ok = "(\<lambda>_. Inr \<lparr>choices = []\<rparr>) :: completions_create"
  let ?msgs = "[\<lparr>role = ''user'', content = StringContent ''hi''\<rparr>]"
  let ?a = "\<lparr>messages = Some ?msgs, model = Some ''gpt-4o'',
            reasoning_effort = None, response_format = None\<rparr>"
  let ?r1 = "\<lparr>name = ''openai_chat'', arguments = Some ?a\<rparr>"
  let ?r2 = "\<lparr>name = ''openai_plan'', arguments = Some ?a\<rparr>"
  let ?r3 = "\<lparr>name = ''openai_chat'', arguments = None\<rparr>"
  let ?e2 = "Error ''Unsupported model for reasoning: gpt-4o. Must be one of: o1-preview, o1-mini, o1-2024-12-17''"
  have t1: "openai_chat_try ?fail (Some ?a) =
              ([chat_params ?msgs ''gpt-4o''], Inl (Error ''429 Rate limit reached''))"
    by (simp add: openai_chat_try_def chat_validate_model_def SUPPORTED_MODELS_def
        chat_convert_messages_def chat_convert_def)
  have t2: "openai_plan_try ?ok (Some ?a) = ([], Inl ?e2)"
    by (simp add: openai_plan_try_def plan_model_def PLAN_MODELS_def)
  obtain e3 where t3: "openai_chat_try ?ok None = ([], Inl e3)"
    using chat_try_extraction[of ?ok] by blast
  have c1: "snd (call_tool ?fail ?r1) =
              Inr \<lparr>result_content =
                     [\<lparr>content_type = ''text'',
                       content_text = ''OpenAI API error: ''
                         @ message (Error ''429 Rate limit reached'')\<rparr>],
                   isError = Some True\<rparr>
            \<and> fst (call_tool ?fail ?r1) = [chat_params ?msgs ''gpt-4o'']"
    by (rule domain_errors_enveloped[where request = ?r1 and create = ?fail])
       (simp_all add: t1)
  have c2: "snd (call_tool ?ok ?r2) =
              Inr \<lparr>result_content =
                     [\<lparr>content_type = ''text'',
                       content_text = ''OpenAI API error: '' @ message ?e2\<rparr>],
                   isError = Some True\<rparr>
            \<and> fst (call_tool ?ok ?r2) = []"
    by (rule domain_errors_enveloped[where request = ?r2 and create = ?ok])
       (simp_all add: t2)
  have c3: "snd (call_tool ?ok ?r3) =
              Inr \<lparr>result_content =
                     [\<lparr>content_type = ''text'',
                       content_text = ''OpenAI API error: '' @ message e3\<rparr>],
                   isError = Some True\<rparr>
            \<and> fst (call_tool ?ok ?r3) = []"
    by (rule domain_errors_enveloped[where request = ?r3 and create = ?ok])
       (simp_all add: t3)
  have "\<exists>e. call_tool ?ok ?r3 =
          ([], Inr \<lparr>result_content =
                      [\<lparr>content_type = ''text'',
                        content_text = ''OpenAI API error: '' @ message e\<rparr>],
                    isError = Some True\<rparr>)"
    using c3 by (intro exI[of _ e3]) (simp add: prod_eq_iff)
  then show ?thesis
    using c1 c2 by (simp add: prod_eq_iff)
qed

text \<open>
  C5. Every downstream request of an \<^verbatim>\<open>openai_plan\<close> call carries
  \<^verbatim>\<open>response_format: { type: "text" }\<close>, whatever \<^verbatim>\<open>response_format\<close> the
  caller gave, and neither \<^verbatim>\<open>temperature\<close> nor \<^verbatim>\<open>max_tokens\<close>.
\<close>

theorem plan_request_format_forced:
  assumes "p \<in> set (fst (openai_plan create args))"
  shows "params_response_format p = Some \<lparr>format_type = ''text''\<rparr> \<and>
         params_temperature p = None \<and> params_max_tokens p = None"
  using openai_plan_calls[OF assms] by (auto simp: plan_params_def)

theorem plan_request_format_forced_witness:
  "fst (openai_plan (\<lambda>_. Inr \<lparr>choices = []\<rparr>)
      (Some \<lparr>messages = Some [\<lparr>role = ''user'', content = StringContent ''hi''\<rparr>],
             model = Some ''o1-mini'', reasoning_effort = Some ''high'',
             response_format = Some \<lparr>format_type = ''json_object''\<rparr>\<rparr>))
   = [\<lparr>params_messages = [\<lparr>role = ''user'', content = StringContent ''hi''\<rparr>],
       params_model = ''o1-mini'', params_temperature = None, params_max_tokens = None,
       params_response_format = Some \<lparr>format_type = ''text''\<rparr>,
       params_reasoning_effort = Some ''high''\<rparr>]"
proof -
  let ?msgs = "[\<lparr>role = ''user'', content = StringContent ''hi''\<rparr>]"
  let ?args = "Some \<lparr>messages = Some ?msgs, model = Some ''o1-mini'',
                      reasoning_effort = Some ''high'',
                      response_format = Some \<lparr>format_type = ''json_object''\<rparr>\<rparr>"
  let ?create = "(\<lambda>_. Inr \<lparr>choices = []\<rparr>) :: completions_create"
  let ?p = "plan_params (map plan_convert ?msgs) ''o1-mini'' ''high''"
  have calls: "fst (openai_plan ?create ?args) = [?p]"
    by (simp add: openai_plan_def openai_plan_try_def plan_model_def PLAN_MODELS_def
        plan_convert_messages_def plan_reasoning_effort_def)
  have mem: "?p \<in> set (fst (openai_plan ?create ?args))"
    by (subst calls) simp
  have "params_response_format ?p = Some \<lparr>format_type = ''text''\<rparr> \<and>
        params_temperature ?p = None \<and> params_max_tokens ?p = None"
    by (rule plan_request_format_forced[OF mem])
  then show ?thesis
    using calls by (simp add: plan_params_def plan_convert_def)
qed

text \<open>
  C6. When every message of an \<^verbatim>\<open>openai_chat\<close> call has a role among
  \<^verbatim>\<open>system\<close>, \<^verbatim>\<open>user\<close>, \<^verbatim>\<open>assistant\<close> and a string as content, the
  translation returns the input list itself (same length, same order, same roles and
  contents), and that list is the \<^verbatim>\<open>messages\<close> of every downstream request of
  the call.
\<close>

theorem chat_translation_identity:
  assumes "\<forall>msg \<in> set msgs. role msg \<in> {''system'', ''user'', ''assistant''} \<and>
                            (\<exists>s. content msg = StringContent s)"
    and "messages a = Some msgs"
  shows "chat_convert_messages (messages a) = Inr msgs \<and>
         (\<forall>p \<in> set (fst (openai_chat create (Some a))). params_messages p = msgs)"
proof -
  have "map_throwing chat_convert msgs = Inr (map (\<lambda>m. m) msgs)"
    using assms(1) by (intro map_throwing_Inr chat_convert_other) auto
  then have conv: "chat_convert_messages (messages a) = Inr msgs"
    by (simp add: chat_convert_messages_def assms(2))
  then show ?thesis
    by (auto simp: openai_chat_def openai_chat_try_def chat_params_def
        split: sum.splits prod.splits)
qed

theorem chat_translation_identity_witness:
  "chat_convert_messages
     (Some [\<lparr>role = ''system'', content = StringContent ''be brief''\<rparr>,
            \<lparr>role = ''user'', content = StringContent ''hi''\<rparr>,
            \<lparr>role = ''assistant'', content = StringContent ''hello''\<rparr>,
            \<lparr>role = ''user'', content = StringContent ''''\<rparr>])
   = Inr [\<lparr>role = ''system'', content = StringContent ''be brief''\<rparr>,
          \<lparr>role = ''user'', content = StringContent ''hi''\<rparr>,
          \<lparr>role = ''assistant'', content = StringContent ''hello''\<rparr>,
          \<lparr>role = ''user'', content = StringContent ''''\<rparr>]
   \<and> fst (openai_chat (\<lambda>_. Inr \<lparr>choices = []\<rparr>)
      (Some \<lparr>messages = Some [\<lparr>role = ''system'', content = StringContent ''be brief''\<rparr>,
                               \<lparr>role = ''user'', content = StringContent ''hi''\<rparr>,
                               \<lparr>role = ''assistant'', content = StringContent ''hello''\<rparr>,
                               \<lparr>role = ''user'', content = StringContent ''''\<rparr>],
             model = Some ''gpt-4o-mini'', reasoning_effort = None, response_format = None\<rparr>))
   = [\<lparr>params_messages = [\<lparr>role = ''system'', content = StringContent ''be brief''\<rparr>,
                           \<lparr>role = ''user'', content = StringContent ''hi''\<rparr>,
                           \<lparr>role = ''assistant'', content = StringContent ''hello''\<rparr>,
                           \<lparr>role = ''user'', content = StringContent ''''\<rparr>],
       params_model = ''gpt-4o-mini'', params_temperature = Some (7 / 10),
       params_max_tokens = Some 2000, params_response_format = None,
       params_reasoning_effort = None\<rparr>]"
proof -
  let ?msgs = "[\<lparr>role = ''system'', content = StringContent ''be brief''\<rparr>,
                \<lparr>role = ''user'', content = StringContent ''hi''\<rparr>,
                \<lparr>role = ''assistant'', content = StringContent ''hello''\<rparr>,
                \<lparr>role = ''user'', content = StringContent ''''\<rparr>]"
  let ?a = "\<lparr>messages = Some ?msgs, model = Some ''gpt-4o-mini'', reasoning_effort = None,
            response_format = None\<rparr>"
  let ?create = "(\<lambda>_. Inr \<lparr>choices = []\<rparr>) :: completions_create"
  have roles: "\<forall>msg \<in> set ?msgs. role msg \<in> {''system'', ''user'', ''assistant''} \<and>
                                 (\<exists>s. content msg = StringContent s)"
    by simp
  have conv: "chat_convert_messages (messages ?a) = Inr ?msgs"
    and sent: "\<forall>p \<in> set (fst (openai_chat ?create (Some ?a))). params_messages p = ?msgs"
    using chat_translation_identity[of ?msgs ?a ?create, OF roles] by simp_all
  have calls: "fst (openai_chat ?create (Some ?a)) = [chat_params ?msgs ''gpt-4o-mini'']"
    using conv
    by (simp add: openai_chat_def openai_chat_try_def chat_validate_model_def
        SUPPORTED_MODELS_def)
  show ?thesis
    using conv calls sent by (simp add: chat_params_def)
qed

text \<open>
  C7. In the translation of \<^verbatim>\<open>openai_plan\<close>, a message that none of the
  handled cases takes (its role is not \<^verbatim>\<open>developer\<close>; it is not a string under
  the role system, user or assistant; it is not an array under the role user or
  assistant) becomes a \<^verbatim>\<open>user\<close> message: with the original string when the
  content was a string, and with the text \<^verbatim>\<open>Invalid content format\<close> otherwise.
\<close>

theorem plan_fallback_to_user:
  assumes "role msg \<noteq> ''developer''"
    and "\<not> ((\<exists>s. content msg = StringContent s) \<and>
             role msg \<in> {''system'', ''user'', ''assistant''})"
    and "\<not> ((\<exists>parts. content msg = ArrayContent parts) \<and>
             role msg \<in> {''user'', ''assistant''})"
  shows "plan_convert msg =
     \<lparr>role = ''user'',
      content = (case content msg of
                   StringContent s \<Rightarrow> StringContent s
                 | _ \<Rightarrow> StringContent ''Invalid content format'')\<rparr>"
  using assms
  by (auto simp: plan_convert_def plan_fallback_def Let_def split: content.splits)

theorem plan_fallback_to_user_witness:
  "plan_convert \<lparr>role = ''tool'', content = StringContent ''42''\<rparr>
     = \<lparr>role = ''user'', content = StringContent ''42''\<rparr>
   \<and> plan_convert \<lparr>role = ''system'',
                     content = ArrayContent [\<lparr>part_type = ''text'', part_text = ''be brief''\<rparr>]\<rparr>
     = \<lparr>role = ''user'', content = StringContent ''Invalid content format''\<rparr>
   \<and> plan_convert \<lparr>role = ''user'', content = OtherContent\<rparr>
     = \<lparr>role = ''user'', content = StringContent ''Invalid content format''\<rparr>"
  using plan_fallback_to_user[of "\<lparr>role = ''tool'', content = StringContent ''42''\<rparr>"]
    plan_fallback_to_user
      [of "\<lparr>role = ''system'',
            content = ArrayContent [\<lparr>part_type = ''text'', part_text = ''be brief''\<rparr>]\<rparr>"]
    plan_fallback_to_user[of "\<lparr>role = ''user'', content = OtherContent\<rparr>"]
  by simp

text \<open>
  C8. For both tools: when the downstream call of a tool call returns a completion
  whose first choice yields no text (no choice, no message, no content, or the empty
  string), the dispatcher returns the success envelope, \<^verbatim>\<open>isError\<close> absent, with
  the single text \<^verbatim>\<open>No response received\<close>.
\<close>

theorem missing_text_is_success:
  assumes "call_tool create request = (calls, outcome)"
    and "p \<in> set calls"
    and "create p = Inr completion"
    and "first_choice_content completion = None \<or> first_choice_content completion = Some ''''"
  shows "outcome = Inr \<lparr>result_content =
                          [\<lparr>content_type = ''text'', content_text = ''No response received''\<rparr>],
                        isError = None\<rparr>"
  using assms
  by (auto simp: call_tool_def openai_chat_def openai_chat_try_def openai_plan_def
        openai_plan_try_def success_result_def response_text_def Let_def
      split: option.splits sum.splits if_splits prod.splits)

theorem missing_text_is_success_witness:
  "call_tool (\<lambda>_. Inr \<lparr>choices = []\<rparr>)
     \<lparr>name = ''openai_chat'',
      arguments = Some \<lparr>messages = Some [\<lparr>role = ''user'', content = StringContent ''hi''\<rparr>],
                         model = Some ''gpt-4o'', reasoning_effort = None,
                         response_format = None\<rparr>\<rparr>
   = ([chat_params [\<lparr>role = ''user'', content = StringContent ''hi''\<rparr>] ''gpt-4o''],
      Inr \<lparr>result_content =
             [\<lparr>content_type = ''text'', content_text = ''No response received''\<rparr>],
           isError = None\<rparr>)
   \<and> call_tool
       (\<lambda>_. Inr \<lparr>choices = [\<lparr>choice_message = Some \<lparr>message_content = Some ''''\<rparr>\<rparr>,
                               \<lparr>choice_message = Some \<lparr>message_content = Some ''second''\<rparr>\<rparr>]\<rparr>)
     \<lparr>name = ''openai_plan'',
      arguments = Some \<lparr>messages = Some [\<lparr>role = ''user'', content = StringContent ''hi''\<rparr>],
                         model = None, reasoning_effort = None, response_format = None\<rparr>\<rparr>
   = ([plan_params [\<lparr>role = ''user'', content = StringContent ''hi''\<rparr>] ''o1-2024-12-17'' ''low''],
      Inr \<lparr>result_content =
             [\<lparr>content_type = ''text'', content_text = ''No response received''\<rparr>],
           isError = None\<rparr>)"
proof -
  let ?msgs = "[\<lparr>role = ''user'', content = StringContent ''hi''\<rparr>]"
  let ?c1 = "\<lparr>choices = []\<rparr>"
  let ?create1 = "(\<lambda>_. Inr ?c1) :: completions_create"
  let ?r1 = "\<lparr>name = ''openai_chat'',
             arguments = Some \<lparr>messages = Some ?msgs, model = Some ''gpt-4o'',
                                reasoning_effort = None, response_format = None\<rparr>\<rparr>"
  let ?p1 = "chat_params ?msgs ''gpt-4o''"
  let ?c2 = "\<lparr>choices = [\<lparr>choice_message = Some \<lparr>message_content = Some ''''\<rparr>\<rparr>,
                          \<lparr>choice_message = Some \<lparr>message_content = Some ''second''\<rparr>\<rparr>]\<rparr>"
  let ?create2 = "(\<lambda>_. Inr ?c2) :: completions_create"
  let ?r2 = "\<lparr>name = ''openai_plan'',
             arguments = Some \<lparr>messages = Some ?msgs, model = None,
                                reasoning_effort = None, response_format = None\<rparr>\<rparr>"
  let ?p2 = "plan_params ?msgs ''o1-2024-12-17'' ''low''"
  have calls1: "fst (call_tool ?create1 ?r1) = [?p1]"
    by (simp add: call_tool_def openai_chat_def openai_chat_try_def chat_validate_model_def
        SUPPORTED_MODELS_def chat_convert_messages_def chat_convert_def)
  have calls2: "fst (call_tool ?create2 ?r2) = [?p2]"
    by (simp add: call_tool_def openai_plan_def openai_plan_try_def plan_model_def
        PLAN_MODELS_def plan_convert_messages_def plan_convert_def plan_reasoning_effort_def
        DEFAULT_REASONING_EFFORT_def)
  have out1: "snd (call_tool ?create1 ?r1) =
      Inr \<lparr>result_content =
             [\<lparr>content_type = ''text'', content_text = ''No response received''\<rparr>],
           isError = None\<rparr>"
    by (rule missing_text_is_success
          [where create = ?create1 and request = ?r1 and p = ?p1 and completion = ?c1
             and calls = "[?p1]"])
       (simp_all add: calls1 prod_eq_iff first_choice_content_def)
  have out2: "snd (call_tool ?create2 ?r2) =
      Inr \<lparr>result_content =
             [\<lparr>content_type = ''text'', content_text = ''No response received''\<rparr>],
           isError = None\<rparr>"
    by (rule missing_text_is_success
          [where create = ?create2 and request = ?r2 and p = ?p2 and completion = ?c2
             and calls = "[?p2]"])
       (simp_all add: calls2 prod_eq_iff first_choice_content_def)
  show ?thesis
    using calls1 calls2 out1 out2 by (simp add: prod_eq_iff)
qed

text \<open>
  C9. A tool call whose name is neither \<^verbatim>\<open>openai_chat\<close> nor
  \<^verbatim>\<open>openai_plan\<close> ends in the thrown \<^verbatim>\<open>McpError\<close> with the code
  \<^verbatim>\<open>MethodNotFound\<close>: no envelope is returned and no downstream call is made.
\<close>

theorem unknown_tool_method_not_found:
  assumes "name request \<noteq> ''openai_chat''"
    and "name request \<noteq> ''openai_plan''"
  shows "call_tool create request =
           ([], Inl (McpError MethodNotFound (''Unknown tool: '' @ name request)))"
  using assms by (simp add: call_tool_def)

theorem unknown_tool_method_not_found_witness:
  "call_tool (\<lambda>_. Inr \<lparr>choices = []\<rparr>)
     \<lparr>name = ''unknown_tool'',
      arguments = Some \<lparr>messages = Some [\<lparr>role = ''user'', content = StringContent ''hi''\<rparr>],
                         model = Some ''gpt-4o'', reasoning_effort = None,
                         response_format = None\<rparr>\<rparr>
   = ([], Inl (McpError MethodNotFound ''Unknown tool: unknown_tool''))"
  using unknown_tool_method_not_found
    [of "\<lparr>name = ''unknown_tool'',
          arguments = Some \<lparr>messages = Some [\<lparr>role = ''user'', content = StringContent ''hi''\<rparr>],
                             model = Some ''gpt-4o'', reasoning_effort = None,
                             response_format = None\<rparr>\<rparr>"
        "\<lambda>_. Inr \<lparr>choices = []\<rparr>"]
  by simp

text \<open>
  C10. An \<^verbatim>\<open>openai_chat\<close> call that omits the model fails the model check
  (\<^verbatim>\<open>undefined\<close> is not among \<open>SUPPORTED_MODELS\<close>): it makes no downstream call,
  so none with the advertised default, and returns the failure envelope with
  \<^verbatim>\<open>isError\<close> true. In \<^verbatim>\<open>openai_plan\<close> an omitted model is
  \<^verbatim>\<open>o1-2024-12-17\<close>, which passes the check there: the call goes downstream with
  that model.
\<close>

theorem chat_omitted_model_fails_validation:
  assumes "model a = None"
  shows "chat_validate_model (model a) =
           Inl (Error ''Unsupported model: undefined. Must be one of: gpt-4o, gpt-4o-mini, o1-preview, o1-mini, o1, o3-mini'')
     \<and> openai_chat create (Some a) =
           ([], \<lparr>result_content =
                   [\<lparr>content_type = ''text'',
                     content_text = ''OpenAI API error: Unsupported model: undefined. Must be one of: gpt-4o, gpt-4o-mini, o1-preview, o1-mini, o1, o3-mini''\<rparr>],
                 isError = Some True\<rparr>)
     \<and> plan_model a = ''o1-2024-12-17'' \<and> plan_model a \<in> set PLAN_MODELS
     \<and> (\<forall>msgs. messages a = Some msgs \<longrightarrow>
           fst (openai_plan create (Some a)) =
             [plan_params (map plan_convert msgs) ''o1-2024-12-17'' (plan_reasoning_effort a)])"
  using assms
  by (auto simp: openai_chat_def openai_chat_try_def chat_validate_model_def SUPPORTED_MODELS_def
        error_result_def plan_model_def PLAN_MODELS_def openai_plan_def openai_plan_try_def
        plan_convert_messages_def Let_def
      split: sum.splits)

theorem chat_omitted_model_fails_validation_witness:
  "openai_chat (\<lambda>_. Inr \<lparr>choices = []\<rparr>)
     (Some \<lparr>messages = Some [\<lparr>role = ''user'', content = StringContent ''hi''\<rparr>],
            model = None, reasoning_effort = None, response_format = None\<rparr>)
   = ([], \<lparr>result_content =
            [\<lparr>content_type = ''text'',
              content_text = ''OpenAI API error: Unsupported model: undefined. Must be one of: gpt-4o, gpt-4o-mini, o1-preview, o1-mini, o1, o3-mini''\<rparr>],
          isError = Some True\<rparr>)
   \<and> fst (openai_plan (\<lambda>_. Inr \<lparr>choices = []\<rparr>)
      (Some \<lparr>messages = Some [\<lparr>role = ''user'', content = StringContent ''hi''\<rparr>],
             model = None, reasoning_effort = None, response_format = None\<rparr>))
   = [\<lparr>params_messages = [\<lparr>role = ''user'', content = StringContent ''hi''\<rparr>],
       params_model = ''o1-2024-12-17'', params_temperature = None, params_max_tokens = None,
       params_response_format = Some \<lparr>format_type = ''text''\<rparr>,
       params_reasoning_effort = Some ''low''\<rparr>]"
  using chat_omitted_model_fails_validation
    [of "\<lparr>messages = Some [\<lparr>role = ''user'', content = StringContent ''hi''\<rparr>],
          model = None, reasoning_effort = None, response_format = None\<rparr>"
        "\<lambda>_. Inr \<lparr>choices = []\<rparr>"]
  by (simp add: plan_params_def plan_convert_def plan_reasoning_effort_def
      DEFAULT_REASONING_EFFORT_def)

end
